theory Spec2Isabelle
  imports Main "HOL-Library.Word"
begin

section \<open>The payload type and the abstract machine\<close>

text \<open>
  \<open>maybe_uninit<T>\<close> is a class template: a union whose only member is one \<open>T\<close>. The
  header \<open>maybe_uninit.hpp\<close> holds two variants of it. The earlier one (C++20) has the
  members \<open>default_init\<close>, \<open>init\<close>, \<open>ptr\<close>, \<open>assume_init\<close>, \<open>destruct\<close> and the flag
  \<open>SELF_DESTRUCT\<close>; the later one (C++26) has \<open>default_init\<close>, \<open>paren_init\<close>,
  \<open>brace_init\<close>, \<open>ptr\<close>, \<open>ref\<close>, \<open>bytes\<close> and \<open>destroy\<close>. Definitions of the later
  variant keep the source's names; where the earlier variant uses the same name, its
  definition carries the suffix \<open>_v1\<close>.

  The template parameter \<open>T\<close> is a value of the record \<open>payload\<close>: what the header asks
  of \<open>T\<close> at compile time (which initialisations are well-formed, the standard type
  traits it names) and what \<open>T\<close>'s constructors do when they run. \<open>'a\<close> is the type of
  one argument, an argument pack \<open>Args...\<close> is a list of them; \<open>'v\<close> is the type of the
  values of \<open>T\<close>.
\<close>

type_synonym byte = "8 word"
type_synonym addr = nat
type_synonym exn = string

text \<open>
  Running the constructor that an initialisation selects: it throws, it constructs a
  value, or it is vacuous (default-initialisation of a type such as \<open>int\<close>, which writes
  nothing and leaves the storage as it is).
\<close>

datatype 'v outcome = Throws exn | Constructs 'v | Vacuous

record 'v ctor =
  ctor_noexcept :: bool
  ctor_run :: "'v outcome"

text \<open>
  \<open>new_default\<close>, \<open>new_paren\<close> and \<open>new_brace\<close> are the new-expressions
  \<open>::new (p) T\<close>, \<open>::new (p) T(args...)\<close> and \<open>::new (p) T{args...}\<close>: \<open>None\<close> when the
  expression is ill-formed, otherwise the constructor it selects. \<open>repr\<close> is the object
  representation of a value and \<open>obj\<close> the value read from a representation.
  \<open>is_const\<close> is \<open>std::is_const_v<T>\<close>. The last three fields are about \<open>T\<close>'s
  destructor: whether it is usable (\<open>std::is_destructible_v<T>\<close>), trivial, and
  declared \<open>noexcept\<close>.
\<close>

record ('a, 'v) payload =
  sizeof :: nat
  repr :: "'v \<Rightarrow> byte list"
  obj :: "byte list \<Rightarrow> 'v"
  new_default :: "'v ctor option"
  new_paren :: "'a list \<Rightarrow> 'v ctor option"
  new_brace :: "'a list \<Rightarrow> 'v ctor option"
  is_const :: bool
  is_destructible :: bool
  is_trivially_destructible :: bool
  is_nothrow_destructible :: bool

text \<open>
  The traits of \<open><type_traits>\<close> that the earlier variant names in its
  \<open>noexcept\<close>-specifications. \<open>std::is_constructible_v<T, Args...>\<close> asks that the variable
  definition \<open>T t(std::declval<Args>()...);\<close> be well-formed, which needs a usable
  destructor as well as the constructor; \<open>std::is_nothrow_constructible_v\<close> asks in
  addition that the definition is known not to throw, which the implementations test
  with \<open>noexcept(T(std::declval<Args>()...))\<close>, an expression that destroys its
  temporary. \<open>std::is_nothrow_default_constructible<T>\<close> is
  \<open>std::is_nothrow_constructible<T>\<close>.
\<close>

definition is_constructible :: "('a, 'v) payload \<Rightarrow> 'a list \<Rightarrow> bool" where
  "is_constructible T args = (new_paren T args \<noteq> None \<and> is_destructible T)"

definition is_nothrow_constructible :: "('a, 'v) payload \<Rightarrow> 'a list \<Rightarrow> bool" where
  "is_nothrow_constructible T args =
     (is_constructible T args \<and>
      (case new_paren T args of
         None \<Rightarrow> False
       | Some c \<Rightarrow> ctor_noexcept c \<and> is_nothrow_destructible T))"

definition is_nothrow_default_constructible :: "('a, 'v) payload \<Rightarrow> bool" where
  "is_nothrow_default_constructible T = is_nothrow_constructible T []"

text \<open>
  The machine: the raw storage of the cell placed at each address, and the trace of the
  constructors that completed and of the non-trivial destructors that ran. The cell
  itself has no field but its storage; whether an object is alive in it shows in the
  trace only.
\<close>

datatype 'v event = Constructed addr 'v | Destroyed addr 'v

record 'v machine =
  heap :: "addr \<Rightarrow> byte list"
  trace :: "'v event list"

fun is_destroyed :: "'v event \<Rightarrow> bool" where
  "is_destroyed (Destroyed p v) = True"
| "is_destroyed (Constructed p v) = False"

text \<open>How often \<open>T\<close>'s destructor has run.\<close>

definition destructor_runs :: "'v machine \<Rightarrow> nat" where
  "destructor_runs m = length (filter is_destroyed (trace m))"

text \<open>
  A call that does not compile (an unsatisfied \<open>requires\<close>, a failed \<open>static_assert\<close>, an
  ill-formed body) is \<open>Ill_formed\<close>; an exception leaving the call is \<open>Thrown\<close>; an
  access outside a span is \<open>Out_of_bounds\<close>.
\<close>

datatype error = Ill_formed | Thrown exn | Out_of_bounds

text \<open>
  The handle a member is called on: const or not, lvalue or rvalue. What a call hands
  back: nothing (\<open>void\<close>), or a reference to a \<open>T\<close>.
\<close>

datatype category = Lvalue | Rvalue

record handle =
  handle_const :: bool
  handle_category :: category

record reference =
  ref_addr :: addr
  ref_const :: bool
  ref_category :: category

record pointer =
  ptr_addr :: addr
  ptr_const :: bool

datatype ret = Void | Ref reference

text \<open>\<open>std::addressof(self.object)\<close>: the only member of a union sits at its start.\<close>

definition object_addr :: "addr \<Rightarrow> addr" where
  "object_addr self = self"

text \<open>Reading the \<open>T\<close> a reference designates.\<close>

definition read_ref :: "('a, 'v) payload \<Rightarrow> reference \<Rightarrow> 'v machine \<Rightarrow> 'v" where
  "read_ref T r m = obj T (heap m (ref_addr r))"

text \<open>
  A placement new-expression at \<open>p\<close> with the selected constructor: its value is the
  pointer to the new object.
\<close>

definition placement_new ::
  "('a, 'v) payload \<Rightarrow> 'v ctor option \<Rightarrow> addr \<Rightarrow> 'v machine \<Rightarrow> error + (addr \<times> 'v machine)" where
  "placement_new T sel p m =
     (case sel of
        None \<Rightarrow> Inl Ill_formed
      | Some c \<Rightarrow>
          (case ctor_run c of
             Throws e \<Rightarrow> Inl (Thrown e)
           | Constructs v \<Rightarrow>
               Inr (p, m\<lparr>heap := (heap m)(p := repr T v), trace := trace m @ [Constructed p v]\<rparr>)
           | Vacuous \<Rightarrow>
               Inr (p, m\<lparr>trace := trace m @ [Constructed p (obj T (heap m p))]\<rparr>)))"

text \<open>
  \<open>std::destroy_at(p)\<close> calls \<open>T\<close>'s destructor on the object at \<open>p\<close>; the call is
  ill-formed when \<open>T\<close> has no usable destructor. A trivial destructor performs no
  action; a non-trivial one runs, which the trace records.
\<close>

definition destroy_at :: "('a, 'v) payload \<Rightarrow> addr \<Rightarrow> 'v machine \<Rightarrow> error + 'v machine" where
  "destroy_at T p m =
     (if \<not> is_destructible T then Inl Ill_formed
      else if is_trivially_destructible T then Inr m
      else Inr (m\<lparr>trace := trace m @ [Destroyed p (obj T (heap m p))]\<rparr>))"

text \<open>Sequencing of calls that may fail, and the state a call leaves.\<close>

definition and_then :: "error + 'x \<Rightarrow> ('x \<Rightarrow> error + 'y) \<Rightarrow> error + 'y" where
  "and_then r f = (case r of Inl e \<Rightarrow> Inl e | Inr x \<Rightarrow> f x)"

definition state_of :: "error + ('r \<times> 'v machine) \<Rightarrow> error + 'v machine" where
  "state_of r = and_then r (\<lambda>(x, m). Inr m)"

section \<open>The later variant\<close>

subsection \<open>The concepts of namespace detail\<close>

definition default_constructible :: "('a, 'v) payload \<Rightarrow> bool" where
  "default_constructible T = (new_default T \<noteq> None)"

definition paren_constructible_from :: "('a, 'v) payload \<Rightarrow> 'a list \<Rightarrow> bool" where
  "paren_constructible_from T args = (new_paren T args \<noteq> None)"

definition brace_constructible_from :: "('a, 'v) payload \<Rightarrow> 'a list \<Rightarrow> bool" where
  "brace_constructible_from T args = (new_brace T args \<noteq> None)"

definition nothrow_default_constructible :: "('a, 'v) payload \<Rightarrow> bool" where
  "nothrow_default_constructible T =
     (case new_default T of None \<Rightarrow> False | Some c \<Rightarrow> ctor_noexcept c)"

definition nothrow_paren_constructible_from :: "('a, 'v) payload \<Rightarrow> 'a list \<Rightarrow> bool" where
  "nothrow_paren_constructible_from T args =
     (case new_paren T args of None \<Rightarrow> False | Some c \<Rightarrow> ctor_noexcept c)"

definition nothrow_brace_constructible_from :: "('a, 'v) payload \<Rightarrow> 'a list \<Rightarrow> bool" where
  "nothrow_brace_constructible_from T args =
     (case new_brace T args of None \<Rightarrow> False | Some c \<Rightarrow> ctor_noexcept c)"

text \<open>
  \<open>const_ref<Self>\<close> asks for a reference type whose referred type is const. A type is
  given here by whether it is a reference and whether it (its referred type) is const.
\<close>

record cvref =
  is_reference :: bool
  referred_const :: bool

definition const_ref :: "cvref \<Rightarrow> bool" where
  "const_ref S = (is_reference S \<and> referred_const S)"

text \<open>
  The explicit object parameter \<open>this Self&& self\<close> is a forwarding reference: \<open>Self\<close> is
  deduced as an lvalue reference type for an lvalue handle and as a non-reference type
  for an rvalue handle.
\<close>

definition deduce_Self :: "handle \<Rightarrow> cvref" where
  "deduce_Self h =
     \<lparr>is_reference = (handle_category h = Lvalue), referred_const = handle_const h\<rparr>"

subsection \<open>Construction\<close>

text \<open>\<open>constexpr maybe_uninit() noexcept {}\<close>: the storage is left as it is.\<close>

definition maybe_uninit :: "addr \<Rightarrow> 'v machine \<Rightarrow> 'v machine" where
  "maybe_uninit self m = m"

text \<open>
  The three members return \<open>T&\<close>: the new-expression's pointer, dereferenced. \<open>self\<close> is
  the address of the cell the member is called on.
\<close>

definition deref :: "('a, 'v) payload \<Rightarrow> addr \<Rightarrow> ret" where
  "deref T p = Ref \<lparr>ref_addr = p, ref_const = is_const T, ref_category = Lvalue\<rparr>"

definition default_init ::
  "('a, 'v) payload \<Rightarrow> addr \<Rightarrow> 'v machine \<Rightarrow> error + (ret \<times> 'v machine)" where
  "default_init T self m =
     (if default_constructible T
      then and_then (placement_new T (new_default T) (object_addr self) m)
             (\<lambda>(p, m'). Inr (deref T p, m'))
      else Inl Ill_formed)"

definition paren_init ::
  "('a, 'v) payload \<Rightarrow> addr \<Rightarrow> 'a list \<Rightarrow> 'v machine \<Rightarrow> error + (ret \<times> 'v machine)" where
  "paren_init T self args m =
     (if paren_constructible_from T args
      then and_then (placement_new T (new_paren T args) (object_addr self) m)
             (\<lambda>(p, m'). Inr (deref T p, m'))
      else Inl Ill_formed)"

definition brace_init ::
  "('a, 'v) payload \<Rightarrow> addr \<Rightarrow> 'a list \<Rightarrow> 'v machine \<Rightarrow> error + (ret \<times> 'v machine)" where
  "brace_init T self args m =
     (if brace_constructible_from T args
      then and_then (placement_new T (new_brace T args) (object_addr self) m)
             (\<lambda>(p, m'). Inr (deref T p, m'))
      else Inl Ill_formed)"

text \<open>
  The tag constructors. They have no member initialiser, so the storage is as the
  default constructor leaves it when the body calls the member. The result is the cell.
\<close>

definition maybe_uninit_default_init_t ::
  "('a, 'v) payload \<Rightarrow> addr \<Rightarrow> 'v machine \<Rightarrow> error + 'v machine" where
  "maybe_uninit_default_init_t T self m =
     (if default_constructible T
      then and_then (default_init T self m) (\<lambda>(r, m'). Inr m')
      else Inl Ill_formed)"

definition maybe_uninit_paren_init_t ::
  "('a, 'v) payload \<Rightarrow> addr \<Rightarrow> 'a list \<Rightarrow> 'v machine \<Rightarrow> error + 'v machine" where
  "maybe_uninit_paren_init_t T self args m =
     (if paren_constructible_from T args
      then and_then (paren_init T self args m) (\<lambda>(r, m'). Inr m')
      else Inl Ill_formed)"

definition maybe_uninit_brace_init_t ::
  "('a, 'v) payload \<Rightarrow> addr \<Rightarrow> 'a list \<Rightarrow> 'v machine \<Rightarrow> error + 'v machine" where
  "maybe_uninit_brace_init_t T self args m =
     (if brace_constructible_from T args
      then and_then (brace_init T self args m) (\<lambda>(r, m'). Inr m')
      else Inl Ill_formed)"

text \<open>
  The free functions \<open>uninit\<close>, \<open>default_init\<close>, \<open>paren_init\<close> and \<open>brace_init\<close> return
  the cell as a prvalue, which is constructed in place at \<open>self\<close>. \<open>paren_init\<close> and
  \<open>brace_init\<close> are overloaded: a variadic template
  \<open>template <detail::sized T, typename... Args> paren_init(Args&&...)\<close> and a template
  with one parameter, \<open>template <detail::sized T> paren_init(T&& t)\<close>. The members having
  the plain names, \<open>default_init_fn\<close> is the free function, \<open>_variadic\<close> and \<open>_unary\<close>
  are the two overloads once overload resolution has selected them, instantiated at the
  object type \<open>T\<close>; for the overload with one parameter, \<open>t\<close> is the \<open>T\<close> its
  parameter is bound to.
\<close>

definition uninit :: "addr \<Rightarrow> 'v machine \<Rightarrow> 'v machine" where
  "uninit self m = maybe_uninit self m"

definition default_init_fn ::
  "('a, 'v) payload \<Rightarrow> addr \<Rightarrow> 'v machine \<Rightarrow> error + 'v machine" where
  "default_init_fn T self m =
     (if default_constructible T then maybe_uninit_default_init_t T self m
      else Inl Ill_formed)"

definition paren_init_variadic ::
  "('a, 'v) payload \<Rightarrow> addr \<Rightarrow> 'a list \<Rightarrow> 'v machine \<Rightarrow> error + 'v machine" where
  "paren_init_variadic T self args m =
     (if paren_constructible_from T args then maybe_uninit_paren_init_t T self args m
      else Inl Ill_formed)"

definition paren_init_unary ::
  "('a, 'v) payload \<Rightarrow> addr \<Rightarrow> 'a \<Rightarrow> 'v machine \<Rightarrow> error + 'v machine" where
  "paren_init_unary T self t m =
     (if paren_constructible_from T [t] then maybe_uninit_paren_init_t T self [t] m
      else Inl Ill_formed)"

definition brace_init_variadic ::
  "('a, 'v) payload \<Rightarrow> addr \<Rightarrow> 'a list \<Rightarrow> 'v machine \<Rightarrow> error + 'v machine" where
  "brace_init_variadic T self args m =
     (if brace_constructible_from T args then maybe_uninit_brace_init_t T self args m
      else Inl Ill_formed)"

definition brace_init_unary ::
  "('a, 'v) payload \<Rightarrow> addr \<Rightarrow> 'a \<Rightarrow> 'v machine \<Rightarrow> error + 'v machine" where
  "brace_init_unary T self t m =
     (if brace_constructible_from T [t] then maybe_uninit_brace_init_t T self [t] m
      else Inl Ill_formed)"

text \<open>
  A call of a free function goes through template argument deduction and overload
  resolution. What these need to know of an argument expression, besides its value
  category: whether its type is \<open>T\<close> (references and cv-qualifiers removed), and the
  \<open>T\<close> that an implicit conversion of it gives, when there is one.
\<close>

record 'a conversions =
  of_T :: "'a \<Rightarrow> bool"
  as_T :: "'a \<Rightarrow> 'a option"

text \<open>
  With \<open>T\<close> given explicitly (an object type), the parameter of the overload with one
  parameter is the rvalue reference \<open>T&&\<close>. It binds directly to an rvalue of type \<open>T\<close>
  and not at all to an lvalue of type \<open>T\<close>; to an argument of another type it binds
  through the temporary that an implicit conversion to \<open>T\<close> creates.
\<close>

datatype binding = Direct | Converted

definition bind_rvalue_reference ::
  "'a conversions \<Rightarrow> category \<Rightarrow> 'a \<Rightarrow> (binding \<times> 'a) option" where
  "bind_rvalue_reference A cat t =
     (if of_T A t then (if cat = Rvalue then Some (Direct, t) else None)
      else (case as_T A t of None \<Rightarrow> None | Some t' \<Rightarrow> Some (Converted, t')))"

text \<open>
  The call \<open>paren_init<T>(args...)\<close>, each argument with its value category. The
  variadic overload is viable when its constraint holds of the arguments as they are
  forwarded. The overload with one parameter is viable when there is one argument, its
  parameter binds and its constraint holds of the \<open>T\<close> it is bound to. When that
  binding is direct the overload with one parameter is chosen, as the more specialised
  template; when it converts, the variadic overload, whose parameters bind without a
  conversion, is the better candidate if it is viable at all.
\<close>

definition call_paren_init ::
  "('a, 'v) payload \<Rightarrow> 'a conversions \<Rightarrow> addr \<Rightarrow> (category \<times> 'a) list \<Rightarrow> 'v machine
     \<Rightarrow> error + 'v machine" where
  "call_paren_init T A self cargs m =
     (let args = map snd cargs;
          unary = (case cargs of
              [(cat, t)] \<Rightarrow>
                (case bind_rvalue_reference A cat t of
                   None \<Rightarrow> None
                 | Some (b, t') \<Rightarrow>
                     if paren_constructible_from T [t'] then Some (b, t') else None)
            | _ \<Rightarrow> None)
      in case unary of
           Some (Direct, t') \<Rightarrow> paren_init_unary T self t' m
         | Some (Converted, t') \<Rightarrow>
             if paren_constructible_from T args then paren_init_variadic T self args m
             else paren_init_unary T self t' m
         | None \<Rightarrow> paren_init_variadic T self args m)"

definition call_brace_init ::
  "('a, 'v) payload \<Rightarrow> 'a conversions \<Rightarrow> addr \<Rightarrow> (category \<times> 'a) list \<Rightarrow> 'v machine
     \<Rightarrow> error + 'v machine" where
  "call_brace_init T A self cargs m =
     (let args = map snd cargs;
          unary = (case cargs of
              [(cat, t)] \<Rightarrow>
                (case bind_rvalue_reference A cat t of
                   None \<Rightarrow> None
                 | Some (b, t') \<Rightarrow>
                     if brace_constructible_from T [t'] then Some (b, t') else None)
            | _ \<Rightarrow> None)
      in case unary of
           Some (Direct, t') \<Rightarrow> brace_init_unary T self t' m
         | Some (Converted, t') \<Rightarrow>
             if brace_constructible_from T args then brace_init_variadic T self args m
             else brace_init_unary T self t' m
         | None \<Rightarrow> brace_init_variadic T self args m)"

text \<open>
  The call \<open>paren_init(t)\<close> with no template argument, \<open>X\<close> being the type of the
  argument. The variadic overload cannot deduce its \<open>T\<close> and is no candidate. For the
  other overload \<open>T&&\<close> is a forwarding reference: from an lvalue \<open>T\<close> is deduced as
  \<open>X&\<close>, which \<open>detail::sized\<close> rejects (it asks for an object type), so the call has
  no candidate; from an rvalue \<open>T\<close> is deduced as \<open>X\<close>.
\<close>

definition call_paren_init_deduced ::
  "('a, 'v) payload \<Rightarrow> addr \<Rightarrow> category \<Rightarrow> 'a \<Rightarrow> 'v machine \<Rightarrow> error + 'v machine" where
  "call_paren_init_deduced X self cat t m =
     (if cat = Lvalue then Inl Ill_formed else paren_init_unary X self t m)"

definition call_brace_init_deduced ::
  "('a, 'v) payload \<Rightarrow> addr \<Rightarrow> category \<Rightarrow> 'a \<Rightarrow> 'v machine \<Rightarrow> error + 'v machine" where
  "call_brace_init_deduced X self cat t m =
     (if cat = Lvalue then Inl Ill_formed else brace_init_unary X self t m)"

subsection \<open>Accessors\<close>

definition ptr :: "('a, 'v) payload \<Rightarrow> addr \<Rightarrow> handle \<Rightarrow> pointer" where
  "ptr T self h = \<lparr>ptr_addr = object_addr self, ptr_const = (handle_const h \<or> is_const T)\<rparr>"

definition ref :: "('a, 'v) payload \<Rightarrow> addr \<Rightarrow> handle \<Rightarrow> reference" where
  "ref T self h =
     \<lparr>ref_addr = object_addr self, ref_const = (handle_const h \<or> is_const T),
      ref_category = handle_category h\<rparr>"

text \<open>
  \<open>bytes\<close>: \<open>byte_type\<close> is \<open>std::byte const\<close> when \<open>const_ref<Self>\<close> or
  \<open>std::is_const_v<T>\<close>, and \<open>std::byte\<close> otherwise. \<open>self.object\<close> is const when the handle
  or \<open>T\<close> is, and a \<open>reinterpret_cast\<close> that casts constness away is ill-formed.
\<close>

record span =
  span_data :: addr
  span_extent :: nat
  span_const :: bool

definition bytes :: "('a, 'v) payload \<Rightarrow> addr \<Rightarrow> handle \<Rightarrow> error + span" where
  "bytes T self h =
     (let byte_type_const = (const_ref (deduce_Self h) \<or> is_const T);
          object_const = (handle_const h \<or> is_const T)
      in if object_const \<and> \<not> byte_type_const then Inl Ill_formed
         else Inr \<lparr>span_data = object_addr self, span_extent = sizeof T,
                   span_const = byte_type_const\<rparr>)"

text \<open>
  Element access through a span: the bytes read, and the assignment \<open>s[i] = b\<close>, which
  does not compile through a span of const bytes.
\<close>

definition span_read :: "span \<Rightarrow> 'v machine \<Rightarrow> byte list" where
  "span_read s m = take (span_extent s) (heap m (span_data s))"

definition span_write :: "span \<Rightarrow> nat \<Rightarrow> byte \<Rightarrow> 'v machine \<Rightarrow> error + 'v machine" where
  "span_write s i b m =
     (if span_const s then Inl Ill_formed
      else if i < span_extent s \<and> i < length (heap m (span_data s))
      then Inr (m\<lparr>heap := (heap m)(span_data s := (heap m (span_data s))[i := b])\<rparr>)
      else Inl Out_of_bounds)"

text \<open>Writing a pattern byte by byte, from index \<open>i\<close> on.\<close>

fun span_write_all :: "span \<Rightarrow> nat \<Rightarrow> byte list \<Rightarrow> 'v machine \<Rightarrow> error + 'v machine" where
  "span_write_all s i [] m = Inr m"
| "span_write_all s i (b # bs) m = and_then (span_write s i b m) (span_write_all s (Suc i) bs)"

subsection \<open>Destruction\<close>

text \<open>
  \<open>destroy\<close> has no constraint and returns nothing. The cell's own destructor is
  defaulted for a trivially destructible \<open>T\<close> and has an empty body otherwise.
\<close>

definition destroy :: "('a, 'v) payload \<Rightarrow> addr \<Rightarrow> 'v machine \<Rightarrow> error + 'v machine" where
  "destroy T self m =
     (if \<not> is_trivially_destructible T then destroy_at T (object_addr self) m else Inr m)"

definition cell_destructor :: "('a, 'v) payload \<Rightarrow> addr \<Rightarrow> 'v machine \<Rightarrow> 'v machine" where
  "cell_destructor T self m = m"

section \<open>The earlier variant\<close>

text \<open>
  Its concept \<open>default_constructible\<close> is the later variant's; \<open>constructible_from\<close> is
  the new-expression with parentheses.
\<close>

definition constructible_from :: "('a, 'v) payload \<Rightarrow> 'a list \<Rightarrow> bool" where
  "constructible_from T args = (new_paren T args \<noteq> None)"

definition maybe_uninit_v1 :: "addr \<Rightarrow> 'v machine \<Rightarrow> 'v machine" where
  "maybe_uninit_v1 self m = m"

text \<open>\<open>std::construct_at(p, args...)\<close> is \<open>::new (p) T(args...)\<close>.\<close>

definition construct_at ::
  "('a, 'v) payload \<Rightarrow> addr \<Rightarrow> 'a list \<Rightarrow> 'v machine \<Rightarrow> error + (addr \<times> 'v machine)" where
  "construct_at T p args m = placement_new T (new_paren T args) p m"


definition init ::
  "('a, 'v) payload \<Rightarrow> addr \<Rightarrow> 'a list \<Rightarrow> 'v machine \<Rightarrow> error + (ret \<times> 'v machine)" where
  "init T self args m =
     (if constructible_from T args
      then and_then (construct_at T (object_addr self) args m)
             (\<lambda>(p, m'). Inr (Void, m'))
      else Inl Ill_formed)"

text \<open>
  \<open>ptr\<close> has a const and a non-const overload; \<open>assume_init\<close> has the overloads \<open>&\<close>,
  \<open>const&\<close> and \<open>&&\<close>, so a const rvalue handle takes the \<open>const&\<close> one.
\<close>

definition ptr_v1 :: "('a, 'v) payload \<Rightarrow> addr \<Rightarrow> handle \<Rightarrow> pointer" where
  "ptr_v1 T self h = \<lparr>ptr_addr = object_addr self, ptr_const = (handle_const h \<or> is_const T)\<rparr>"

definition assume_init :: "('a, 'v) payload \<Rightarrow> addr \<Rightarrow> handle \<Rightarrow> reference" where
  "assume_init T self h =
     \<lparr>ref_addr = object_addr self, ref_const = (handle_const h \<or> is_const T),
      ref_category = (if handle_const h then Lvalue else handle_category h)\<rparr>"

text \<open>
  \<open>destruct\<close>, as the header has it: \<open>std::destroy_at\<close> is called under
  \<open>if constexpr (std::is_trivially_destructible_v<T>)\<close>.
\<close>

definition destruct :: "('a, 'v) payload \<Rightarrow> addr \<Rightarrow> 'v machine \<Rightarrow> error + 'v machine" where
  "destruct T self m =
     (if is_destructible T
      then (if is_trivially_destructible T then destroy_at T (object_addr self) m else Inr m)
      else Inl Ill_formed)"

text \<open>
  The cell's destructor: the defaulted one is chosen for a trivially destructible \<open>T\<close>;
  otherwise the user-provided one runs, which calls \<open>destruct()\<close> when \<open>SELF_DESTRUCT\<close>.
\<close>

definition cell_destructor_v1 ::
  "('a, 'v) payload \<Rightarrow> bool \<Rightarrow> addr \<Rightarrow> 'v machine \<Rightarrow> error + 'v machine" where
  "cell_destructor_v1 T SELF_DESTRUCT self m =
     (if is_trivially_destructible T then Inr m
      else if SELF_DESTRUCT
      then (if is_destructible T then destruct T self m else Inl Ill_formed)
      else Inr m)"

section \<open>The construction strategies by name\<close>

text \<open>
  The three strategies, the constructor each selects, and the member that runs it. The
  earlier variant has \<open>default_init\<close> and \<open>init\<close> (parentheses); it has no member for
  list-initialisation, so that call does not compile.
\<close>

datatype strategy = Default_init | Paren_init | Brace_init

fun selected :: "strategy \<Rightarrow> ('a, 'v) payload \<Rightarrow> 'a list \<Rightarrow> 'v ctor option" where
  "selected Default_init T args = new_default T"
| "selected Paren_init T args = new_paren T args"
| "selected Brace_init T args = new_brace T args"

fun construct ::
  "strategy \<Rightarrow> ('a, 'v) payload \<Rightarrow> addr \<Rightarrow> 'a list \<Rightarrow> 'v machine
     \<Rightarrow> error + (ret \<times> 'v machine)" where
  "construct Default_init T self args m = default_init T self m"
| "construct Paren_init T self args m = paren_init T self args m"
| "construct Brace_init T self args m = brace_init T self args m"


section \<open>Sequences of calls\<close>

text \<open>
  The call sequences on one cell that the properties below are about. In the earlier
  variant: \<open>init\<close> and then the end of the cell's lifetime; \<open>init\<close>, \<open>destruct\<close> and then
  the end of the cell's lifetime; \<open>init\<close> and then \<open>destruct\<close>. In the later variant:
  \<open>paren_init\<close> and then \<open>destroy\<close>; \<open>paren_init\<close>, \<open>destroy\<close> and \<open>paren_init\<close> again.
\<close>

definition init_teardown ::
  "('a, 'v) payload \<Rightarrow> bool \<Rightarrow> addr \<Rightarrow> 'a list \<Rightarrow> 'v machine \<Rightarrow> error + 'v machine" where
  "init_teardown T SELF_DESTRUCT self args m =
     and_then (init T self args m) (\<lambda>(r, m1). cell_destructor_v1 T SELF_DESTRUCT self m1)"

definition init_destruct_teardown ::
  "('a, 'v) payload \<Rightarrow> bool \<Rightarrow> addr \<Rightarrow> 'a list \<Rightarrow> 'v machine \<Rightarrow> error + 'v machine" where
  "init_destruct_teardown T SELF_DESTRUCT self args m =
     and_then (init T self args m)
       (\<lambda>(r, m1). and_then (destruct T self m1) (cell_destructor_v1 T SELF_DESTRUCT self))"

definition init_destruct ::
  "('a, 'v) payload \<Rightarrow> addr \<Rightarrow> 'a list \<Rightarrow> 'v machine \<Rightarrow> error + 'v machine" where
  "init_destruct T self args m =
     and_then (init T self args m) (\<lambda>(r, m1). destruct T self m1)"

definition paren_init_destroy ::
  "('a, 'v) payload \<Rightarrow> addr \<Rightarrow> 'a list \<Rightarrow> 'v machine \<Rightarrow> error + 'v machine" where
  "paren_init_destroy T self args m =
     and_then (paren_init T self args m) (\<lambda>(r, m1). destroy T self m1)"


section \<open>Copying and moving the cell\<close>

text \<open>
  The earlier variant declares the four copy and move members, each defaulted under a
  \<open>requires\<close>-clause that names a standard trait of \<open>T\<close>:
  \<open>std::is_trivially_copy_constructible_v<T>\<close> and so on. The record holds the values
  of these four traits; they are taken as given. (A trait of this family asks more than
  that the operation of \<open>T\<close> be trivial: the implementations also count \<open>T\<close>'s
  destructor.)
\<close>

record triviality =
  is_trivially_copy_constructible :: bool
  is_trivially_move_constructible :: bool
  is_trivially_copy_assignable :: bool
  is_trivially_move_assignable :: bool

datatype special_member =
  Copy_constructor | Move_constructor | Copy_assignment | Move_assignment

text \<open>A member whose constraint fails is no candidate of overload resolution.\<close>

fun available_v1 :: "triviality \<Rightarrow> special_member \<Rightarrow> bool" where
  "available_v1 T Copy_constructor = is_trivially_copy_constructible T"
| "available_v1 T Move_constructor = is_trivially_move_constructible T"
| "available_v1 T Copy_assignment = is_trivially_copy_assignable T"
| "available_v1 T Move_assignment = is_trivially_move_assignable T"

text \<open>
  The later variant declares none of the four, so the language decides, from \<open>T\<close>'s own
  special members and not from the traits: whether the copy constructor that overload
  resolution finds for a \<open>T\<close> is usable and trivial, the same for the copy assignment
  operator, and whether \<open>T\<close>'s destructor is usable (neither deleted nor inaccessible).
  The implicit copy constructor of a union is defined as deleted when the member's copy
  constructor is not usable or not trivial, or the member's destructor is not usable;
  its implicit copy assignment operator when the member's is not usable or not trivial.
  Implicit move members are not declared at all in a class that declares a destructor,
  as this one does.
\<close>

record own_operations =
  copy_constructor_trivial :: bool
  copy_assignment_trivial :: bool
  destructor_usable :: bool

fun available :: "own_operations \<Rightarrow> special_member \<Rightarrow> bool" where
  "available T Copy_constructor = (copy_constructor_trivial T \<and> destructor_usable T)"
| "available T Move_constructor = False"
| "available T Copy_assignment = copy_assignment_trivial T"
| "available T Move_assignment = False"

text \<open>
  Constructing a cell from another cell, and assigning one, given the value category of
  the source: an rvalue takes the move member when there is one, and the copy member
  (whose parameter \<open>maybe_uninit const&\<close> binds to it) otherwise.
\<close>

definition construct_cell_v1 :: "triviality \<Rightarrow> category \<Rightarrow> error + special_member" where
  "construct_cell_v1 T src =
     (if src = Rvalue \<and> available_v1 T Move_constructor then Inr Move_constructor
      else if available_v1 T Copy_constructor then Inr Copy_constructor
      else Inl Ill_formed)"

definition assign_cell_v1 :: "triviality \<Rightarrow> category \<Rightarrow> error + special_member" where
  "assign_cell_v1 T src =
     (if src = Rvalue \<and> available_v1 T Move_assignment then Inr Move_assignment
      else if available_v1 T Copy_assignment then Inr Copy_assignment
      else Inl Ill_formed)"

definition construct_cell :: "own_operations \<Rightarrow> category \<Rightarrow> error + special_member" where
  "construct_cell T src =
     (if src = Rvalue \<and> available T Move_constructor then Inr Move_constructor
      else if available T Copy_constructor then Inr Copy_constructor
      else Inl Ill_formed)"

definition assign_cell :: "own_operations \<Rightarrow> category \<Rightarrow> error + special_member" where
  "assign_cell T src =
     (if src = Rvalue \<and> available T Move_assignment then Inr Move_assignment
      else if available T Copy_assignment then Inr Copy_assignment
      else Inl Ill_formed)"

section \<open>Exception specifications\<close>

text \<open>
  The functions of the header that carry a \<open>noexcept\<close>-specification: those of the later
  variant (\<open>L_\<close>) and those of the earlier one (\<open>E_\<close>). \<open>noexcept_spec\<close> is the operand of
  the specification, at the payload and the argument pack the function is instantiated
  with (for an overload with one parameter, the pack holds that argument).
\<close>

datatype entry =
    L_maybe_uninit
  | L_maybe_uninit_default_init_t
  | L_maybe_uninit_paren_init_t
  | L_maybe_uninit_brace_init_t
  | L_default_init
  | L_paren_init
  | L_brace_init
  | L_ptr
  | L_ref
  | L_bytes
  | L_destroy
  | L_uninit_fn
  | L_default_init_fn
  | L_paren_init_variadic
  | L_paren_init_unary
  | L_brace_init_variadic
  | L_brace_init_unary
  | E_maybe_uninit
  | E_maybe_uninit_default_init_tag
  | E_maybe_uninit_value_init_tag
  | E_maybe_uninit_args
  | E_default_init
  | E_init
  | E_ptr
  | E_assume_init
  | E_destruct
  | E_uninit_fn
  | E_default_init_fn
  | E_init_fn0
  | E_init_fn1
  | E_init_auto
  | E_init_fn

fun noexcept_spec :: "entry \<Rightarrow> ('a, 'v) payload \<Rightarrow> 'a list \<Rightarrow> bool" where
  "noexcept_spec L_maybe_uninit T args = True"
| "noexcept_spec L_maybe_uninit_default_init_t T args = nothrow_default_constructible T"
| "noexcept_spec L_maybe_uninit_paren_init_t T args = nothrow_paren_constructible_from T args"
| "noexcept_spec L_maybe_uninit_brace_init_t T args = nothrow_brace_constructible_from T args"
| "noexcept_spec L_default_init T args = nothrow_default_constructible T"
| "noexcept_spec L_paren_init T args = nothrow_paren_constructible_from T args"
| "noexcept_spec L_brace_init T args = nothrow_brace_constructible_from T args"
| "noexcept_spec L_ptr T args = True"
| "noexcept_spec L_ref T args = True"
| "noexcept_spec L_bytes T args = True"
| "noexcept_spec L_destroy T args = is_nothrow_destructible T"
| "noexcept_spec L_uninit_fn T args = True"
| "noexcept_spec L_default_init_fn T args = nothrow_default_constructible T"
| "noexcept_spec L_paren_init_variadic T args = nothrow_paren_constructible_from T args"
| "noexcept_spec L_paren_init_unary T args = nothrow_paren_constructible_from T args"
| "noexcept_spec L_brace_init_variadic T args = nothrow_brace_constructible_from T args"
| "noexcept_spec L_brace_init_unary T args = nothrow_brace_constructible_from T args"
| "noexcept_spec E_maybe_uninit T args = True"
| "noexcept_spec E_maybe_uninit_default_init_tag T args = is_nothrow_default_constructible T"
| "noexcept_spec E_maybe_uninit_value_init_tag T args = is_nothrow_default_constructible T"
| "noexcept_spec E_maybe_uninit_args T args = is_nothrow_constructible T args"
| "noexcept_spec E_default_init T args = is_nothrow_default_constructible T"
| "noexcept_spec E_init T args = is_nothrow_constructible T args"
| "noexcept_spec E_ptr T args = True"
| "noexcept_spec E_assume_init T args = True"
| "noexcept_spec E_destruct T args = is_nothrow_destructible T"
| "noexcept_spec E_uninit_fn T args = True"
| "noexcept_spec E_default_init_fn T args = is_nothrow_default_constructible T"
| "noexcept_spec E_init_fn0 T args = is_nothrow_default_constructible T"
| "noexcept_spec E_init_fn1 T args = is_nothrow_constructible T args"
| "noexcept_spec E_init_auto T args = is_nothrow_constructible T args"
| "noexcept_spec E_init_fn T args = is_nothrow_constructible T args"

text \<open>
  In the words of the property: a form of construction of \<open>T\<close> is \<open>noexcept\<close> when the
  new-expression is well-formed and the constructor it selects is declared \<open>noexcept\<close>.
\<close>

definition noexcept_form :: "'v ctor option \<Rightarrow> bool" where
  "noexcept_form sel = (case sel of None \<Rightarrow> False | Some c \<Rightarrow> ctor_noexcept c)"

section \<open>Payload types used as inputs\<close>

subsection \<open>Fixed-size integers\<close>

text \<open>
  An integer type is its width in bits and its signedness; its values are the integers
  of its range. A conversion to it keeps the value modulo \<open>2 ^ width\<close>.
\<close>

record int_type =
  width :: nat
  is_signed :: bool

definition int_min :: "int_type \<Rightarrow> int" where
  "int_min T = (if is_signed T then - (2 ^ (width T - 1)) else 0)"

definition int_max :: "int_type \<Rightarrow> int" where
  "int_max T = (if is_signed T then 2 ^ (width T - 1) - 1 else 2 ^ width T - 1)"

definition representable :: "int_type \<Rightarrow> int \<Rightarrow> bool" where
  "representable T v = (int_min T \<le> v \<and> v \<le> int_max T)"

definition convert :: "int_type \<Rightarrow> int \<Rightarrow> int" where
  "convert T v =
     (if is_signed T then (v + 2 ^ (width T - 1)) mod 2 ^ width T - 2 ^ (width T - 1)
      else v mod 2 ^ width T)"

text \<open>
  List-initialisation rejects a narrowing conversion. From an integer type to another,
  a conversion narrows unless the target represents every value of the source, or the
  source is a constant expression whose value fits. Inside \<open>brace_init\<close> the source is
  the forwarded function parameter, never a constant expression.
\<close>

definition narrowing :: "int_type \<Rightarrow> int_type \<Rightarrow> bool" where
  "narrowing S T = (\<not> (int_min T \<le> int_min S \<and> int_max S \<le> int_max T))"

text \<open>The object representation on a little-endian target.\<close>

fun le_bytes :: "nat \<Rightarrow> nat \<Rightarrow> byte list" where
  "le_bytes 0 x = []"
| "le_bytes (Suc n) x = word_of_nat (x mod 256) # le_bytes n (x div 256)"

fun le_value :: "byte list \<Rightarrow> nat" where
  "le_value [] = 0"
| "le_value (b # bs) = unat b + 256 * le_value bs"

definition int_repr :: "int_type \<Rightarrow> int \<Rightarrow> byte list" where
  "int_repr T v = le_bytes (width T div 8) (nat (v mod 2 ^ width T))"

definition int_obj :: "int_type \<Rightarrow> byte list \<Rightarrow> int" where
  "int_obj T bs = convert T (int (le_value bs))"

text \<open>An argument of integer type: its type and its value.\<close>

record typed_int =
  arg_type :: int_type
  arg_value :: int

definition noexcept_ctor :: "'v outcome \<Rightarrow> 'v ctor" where
  "noexcept_ctor r = \<lparr>ctor_noexcept = True, ctor_run = r\<rparr>"

text \<open>
  The integer type \<open>T\<close> as a payload. \<open>T()\<close> and \<open>T{}\<close> are zero, \<open>T(a)\<close> converts,
  \<open>T{a}\<close> is ill-formed when the conversion narrows.
\<close>

definition fundamental_int :: "int_type \<Rightarrow> (typed_int, int) payload" where
  "fundamental_int T =
     \<lparr>sizeof = width T div 8,
      repr = int_repr T,
      obj = int_obj T,
      new_default = Some (noexcept_ctor Vacuous),
      new_paren = (\<lambda>args. case args of
          [] \<Rightarrow> Some (noexcept_ctor (Constructs 0))
        | [a] \<Rightarrow> Some (noexcept_ctor (Constructs (convert T (arg_value a))))
        | _ \<Rightarrow> None),
      new_brace = (\<lambda>args. case args of
          [] \<Rightarrow> Some (noexcept_ctor (Constructs 0))
        | [a] \<Rightarrow> if narrowing (arg_type a) T then None
                 else Some (noexcept_ctor (Constructs (convert T (arg_value a))))
        | _ \<Rightarrow> None),
      is_const = False,
      is_destructible = True,
      is_trivially_destructible = True,
      is_nothrow_destructible = True\<rparr>"

text \<open>
  An argument of integer type seen from the integer type \<open>T\<close>: every integer type
  converts implicitly to \<open>T\<close>, with the value converted.
\<close>

definition int_conversions :: "int_type \<Rightarrow> typed_int conversions" where
  "int_conversions T =
     \<lparr>of_T = (\<lambda>a. arg_type a = T),
      as_T = (\<lambda>a. Some \<lparr>arg_type = T, arg_value = convert T (arg_value a)\<rparr>)\<rparr>"

definition int32 :: int_type where "int32 = \<lparr>width = 32, is_signed = True\<rparr>"
definition uint32 :: int_type where "uint32 = \<lparr>width = 32, is_signed = False\<rparr>"
definition int64 :: int_type where "int64 = \<lparr>width = 64, is_signed = True\<rparr>"

subsection \<open>A class with a deleted default constructor\<close>

text \<open>
  The README's example, with a member to tell its values apart:
  \<^verbatim>\<open>struct NonTrivial { int x; NonTrivial() = delete; NonTrivial(int x) : x(x) {}
                     ~NonTrivial() { /* side effect */ } };\<close>
\<close>

definition NonTrivial :: "(int, int) payload" where
  "NonTrivial =
     \<lparr>sizeof = 4,
      repr = int_repr int32,
      obj = int_obj int32,
      new_default = None,
      new_paren = (\<lambda>args. case args of
          [x] \<Rightarrow> Some \<lparr>ctor_noexcept = False, ctor_run = Constructs x\<rparr>
        | _ \<Rightarrow> None),
      new_brace = (\<lambda>args. case args of
          [x] \<Rightarrow> Some \<lparr>ctor_noexcept = False, ctor_run = Constructs x\<rparr>
        | _ \<Rightarrow> None),
      is_const = False,
      is_destructible = True,
      is_trivially_destructible = False,
      is_nothrow_destructible = True\<rparr>"

text \<open>
  A class whose constructor does not throw and whose destructor may:
  \<^verbatim>\<open>struct Loud { int x; Loud(int x) noexcept : x(x) {}
               ~Loud() noexcept(false) {} };\<close>
\<close>

definition Loud :: "(int, int) payload" where
  "Loud =
     \<lparr>sizeof = 4,
      repr = int_repr int32,
      obj = int_obj int32,
      new_default = None,
      new_paren = (\<lambda>args. case args of
          [x] \<Rightarrow> Some \<lparr>ctor_noexcept = True, ctor_run = Constructs x\<rparr>
        | _ \<Rightarrow> None),
      new_brace = (\<lambda>args. case args of
          [x] \<Rightarrow> Some \<lparr>ctor_noexcept = True, ctor_run = Constructs x\<rparr>
        | _ \<Rightarrow> None),
      is_const = False,
      is_destructible = True,
      is_trivially_destructible = False,
      is_nothrow_destructible = False\<rparr>"

text \<open>A machine whose storage has \<open>n\<close> bytes of no meaning at every address.\<close>

definition fresh :: "nat \<Rightarrow> 'v machine" where
  "fresh n = \<lparr>heap = (\<lambda>p. replicate n 170), trace = []\<rparr>"

section \<open>Evaluation of the inputs\<close>

lemma and_then_simps:
  "and_then (Inl e) f = Inl e" "and_then (Inr x) f = f x"
  by (simp_all add: and_then_def)

lemma le_bytes_numeral:
  "le_bytes (numeral k) x = word_of_nat (x mod 256) # le_bytes (pred_numeral k) (x div 256)"
  using le_bytes.simps(2) [of "pred_numeral k" x]
  by (simp only: numeral_eq_Suc [symmetric])

lemma int32_42: "int_obj int32 (int_repr int32 42) = 42"
  by (simp add: int_obj_def int_repr_def int32_def convert_def le_bytes_numeral)


lemma NonTrivial_fields:
  "new_paren NonTrivial [x] = Some \<lparr>ctor_noexcept = False, ctor_run = Constructs x\<rparr>"
  "new_brace NonTrivial [x] = Some \<lparr>ctor_noexcept = False, ctor_run = Constructs x\<rparr>"
  "new_default NonTrivial = None"
  "is_destructible NonTrivial = True" "is_trivially_destructible NonTrivial = False"
  "obj NonTrivial = int_obj int32" "repr NonTrivial = int_repr int32"
  "is_const NonTrivial = False" "sizeof NonTrivial = 4"
  by (simp_all add: NonTrivial_def)

lemma fundamental_int_fields:
  "new_paren (fundamental_int T) [a] = Some (noexcept_ctor (Constructs (convert T (arg_value a))))"
  "new_brace (fundamental_int T) [a] =
     (if narrowing (arg_type a) T then None
      else Some (noexcept_ctor (Constructs (convert T (arg_value a)))))"
  "repr (fundamental_int T) = int_repr T" "obj (fundamental_int T) = int_obj T"
  "sizeof (fundamental_int T) = width T div 8" "is_const (fundamental_int T) = False"
  by (simp_all add: fundamental_int_def)

lemma fresh_fields: "trace (fresh n) = []" "heap (fresh n) p = replicate n 170"
  by (simp_all add: fresh_def)

section \<open>What the members do when the constructor succeeds\<close>

lemma placement_new_Constructs:
  assumes "sel = Some c" and "ctor_run c = Constructs v"
  shows "placement_new T sel p m =
           Inr (p, m\<lparr>heap := (heap m)(p := repr T v), trace := trace m @ [Constructed p v]\<rparr>)"
  using assms by (simp add: placement_new_def)

lemma placement_new_Vacuous:
  assumes "sel = Some c" and "ctor_run c = Vacuous"
  shows "placement_new T sel p m =
           Inr (p, m\<lparr>trace := trace m @ [Constructed p (obj T (heap m p))]\<rparr>)"
  using assms by (simp add: placement_new_def)

lemma placement_new_Throws:
  assumes "sel = Some c" and "ctor_run c = Throws e"
  shows "placement_new T sel p m = Inl (Thrown e)"
  using assms by (simp add: placement_new_def)

lemma paren_init_Constructs:
  assumes "new_paren T args = Some c" and "ctor_run c = Constructs v"
  shows "paren_init T self args m =
           Inr (deref T self,
                m\<lparr>heap := (heap m)(self := repr T v), trace := trace m @ [Constructed self v]\<rparr>)"
  using assms
  by (simp add: paren_init_def paren_constructible_from_def placement_new_Constructs
      and_then_def object_addr_def)

lemma brace_init_Constructs:
  assumes "new_brace T args = Some c" and "ctor_run c = Constructs v"
  shows "brace_init T self args m =
           Inr (deref T self,
                m\<lparr>heap := (heap m)(self := repr T v), trace := trace m @ [Constructed self v]\<rparr>)"
  using assms
  by (simp add: brace_init_def brace_constructible_from_def placement_new_Constructs
      and_then_def object_addr_def)


lemma init_Constructs:
  assumes "new_paren T args = Some c" and "ctor_run c = Constructs v"
  shows "init T self args m =
           Inr (Void,
                m\<lparr>heap := (heap m)(self := repr T v), trace := trace m @ [Constructed self v]\<rparr>)"
  using assms
  by (simp add: init_def constructible_from_def construct_at_def placement_new_Constructs
      and_then_def object_addr_def)



text \<open>
  The other outcomes: a vacuous initialisation returns the reference and leaves the
  storage as it was; an exception of the constructor leaves the member unchanged; an
  initialisation that is not well-formed does not compile.
\<close>

lemma construct_Vacuous:
  assumes "selected s T args = Some c" and "ctor_run c = Vacuous"
  shows "construct s T self args m =
           Inr (deref T self, m\<lparr>trace := trace m @ [Constructed self (obj T (heap m self))]\<rparr>)"
  using assms
  by (cases s)
     (simp_all add: default_init_def paren_init_def brace_init_def default_constructible_def
        paren_constructible_from_def brace_constructible_from_def placement_new_Vacuous
        and_then_simps object_addr_def)

lemma construct_Throws:
  assumes "selected s T args = Some c" and "ctor_run c = Throws e"
  shows "construct s T self args m = Inl (Thrown e)"
  using assms
  by (cases s)
     (simp_all add: default_init_def paren_init_def brace_init_def default_constructible_def
        paren_constructible_from_def brace_constructible_from_def placement_new_Throws
        and_then_simps)

lemma construct_ill_formed:
  assumes "selected s T args = None"
  shows "construct s T self args m = Inl Ill_formed"
  using assms
  by (cases s)
     (simp_all add: default_init_def paren_init_def brace_init_def default_constructible_def
        paren_constructible_from_def brace_constructible_from_def)


lemma destroy_cases:
  assumes "is_destructible T"
  shows "destroy T self m =
           Inr (if is_trivially_destructible T then m
                else m\<lparr>trace := trace m @ [Destroyed self (obj T (heap m self))]\<rparr>)"
  using assms by (simp add: destroy_def destroy_at_def object_addr_def)

lemma destruct_cases:
  assumes "is_destructible T"
  shows "destruct T self m = Inr m"
  using assms by (simp add: destruct_def destroy_at_def)

lemma init_NonTrivial:
  "init NonTrivial 0 [x] (fresh 4) =
     Inr (Void, \<lparr>heap = (\<lambda>p. replicate 4 170)(0 := int_repr int32 x), trace = [Constructed 0 x]\<rparr>)"
proof -
  have "ctor_run \<lparr>ctor_noexcept = False, ctor_run = Constructs x\<rparr> = Constructs x"
    by simp
  from init_Constructs [OF NonTrivial_fields(1) this, of 0 "fresh 4"]
  show ?thesis
    by (simp add: NonTrivial_fields fresh_def)
qed

lemma paren_init_NonTrivial:
  "paren_init NonTrivial 0 [x] (fresh 4) =
     Inr (deref NonTrivial 0,
          \<lparr>heap = (\<lambda>p. replicate 4 170)(0 := int_repr int32 x), trace = [Constructed 0 x]\<rparr>)"
proof -
  have "ctor_run \<lparr>ctor_noexcept = False, ctor_run = Constructs x\<rparr> = Constructs x"
    by simp
  from paren_init_Constructs [OF NonTrivial_fields(1) this, of 0 "fresh 4"]
  show ?thesis
    by (simp add: NonTrivial_fields fresh_def)
qed

section \<open>Explicit destruction\<close>

text \<open>
  Claim C1. The explicit destruction operation is a no-op for a trivially destructible
  \<open>T\<close> and runs \<open>T\<close>'s destructor on the stored object otherwise. The later variant's
  \<open>destroy\<close> does; the earlier variant's \<open>destruct\<close> does not: on a cell that holds a live
  \<open>NonTrivial\<close> constructed from 42, \<open>destruct\<close> returns with no destructor run, where
  \<open>destroy\<close> runs the destructor on that object.
\<close>

theorem destruct_skips_destructor:
  "map_sum id trace (init_destruct NonTrivial 0 [42] (fresh 4)) = Inr [Constructed 0 42]
   \<and> map_sum id trace (paren_init_destroy NonTrivial 0 [42] (fresh 4))
       = Inr [Constructed 0 42, Destroyed 0 42]"
  by (simp add: init_destruct_def paren_init_destroy_def init_NonTrivial paren_init_NonTrivial
      and_then_simps destruct_cases destroy_cases NonTrivial_fields int32_42)

section \<open>The cell's own destructor under SELF_DESTRUCT\<close>

text \<open>
  On the header as it is, the end of the cell's lifetime changes nothing, whatever the
  flag: for a non-trivially destructible \<open>T\<close> the destructor of the cell calls
  \<open>destruct()\<close>, which skips \<open>T\<close>'s destructor.
\<close>

lemma cell_destructor_v1_changes_nothing:
  assumes "is_destructible T"
  shows "cell_destructor_v1 T SELF_DESTRUCT self m = Inr m"
  using assms by (simp add: cell_destructor_v1_def destruct_cases)

text \<open>
  Claim C2. With \<open>SELF_DESTRUCT\<close> set and a non-trivially destructible \<open>T\<close>, construction
  followed by the end of the cell's lifetime runs \<open>T\<close>'s destructor exactly once, and so
  does construction, an explicit \<open>destruct()\<close> and then the end of the cell's lifetime.
  The header does neither: for \<open>maybe_uninit<NonTrivial, true>\<close>, after \<open>init(42)\<close> and
  the cell's destructor, and after \<open>init(42)\<close>, \<open>destruct()\<close> and the cell's destructor,
  the destructor of \<open>NonTrivial\<close> has run zero times.
\<close>

theorem self_destruct_never_destroys:
  "map_sum id destructor_runs (init_teardown NonTrivial True 0 [42] (fresh 4)) = Inr 0
   \<and> map_sum id destructor_runs (init_destruct_teardown NonTrivial True 0 [42] (fresh 4)) = Inr 0"
  by (simp add: init_teardown_def init_destruct_teardown_def init_NonTrivial and_then_simps
      destruct_cases NonTrivial_fields cell_destructor_v1_def destructor_runs_def)

section \<open>What a construction strategy returns\<close>




section \<open>Tag constructors and free functions\<close>

text \<open>
  A tag constructor is the uninitialised cell followed by the member, in the state it
  leaves and in its failure; so is \<open>default_init<T>()\<close>, and so is each overload of
  \<open>paren_init\<close> and \<open>brace_init\<close> once it is selected.
\<close>

lemma tag_default:
  "maybe_uninit_default_init_t T self m = state_of (default_init T self (maybe_uninit self m))"
  by (simp add: maybe_uninit_default_init_t_def maybe_uninit_def state_of_def default_init_def
      and_then_simps)

lemma tag_paren:
  "maybe_uninit_paren_init_t T self args m
     = state_of (paren_init T self args (maybe_uninit self m))"
  by (simp add: maybe_uninit_paren_init_t_def maybe_uninit_def state_of_def paren_init_def
      and_then_simps)

lemma tag_brace:
  "maybe_uninit_brace_init_t T self args m
     = state_of (brace_init T self args (maybe_uninit self m))"
  by (simp add: maybe_uninit_brace_init_t_def maybe_uninit_def state_of_def brace_init_def
      and_then_simps)

lemma fn_default:
  "default_init_fn T self m = state_of (default_init T self (uninit self m))"
  by (simp add: default_init_fn_def tag_default uninit_def state_of_def default_init_def
      and_then_simps)

lemma paren_variadic:
  "paren_init_variadic T self args m = state_of (paren_init T self args (uninit self m))"
  by (simp add: paren_init_variadic_def tag_paren uninit_def state_of_def paren_init_def
      and_then_simps)

lemma brace_variadic:
  "brace_init_variadic T self args m = state_of (brace_init T self args (uninit self m))"
  by (simp add: brace_init_variadic_def tag_brace uninit_def state_of_def brace_init_def
      and_then_simps)

lemma paren_unary:
  "paren_init_unary T self t m = state_of (paren_init T self [t] (uninit self m))"
  by (simp add: paren_init_unary_def tag_paren uninit_def state_of_def paren_init_def
      and_then_simps)

lemma brace_unary:
  "brace_init_unary T self t m = state_of (brace_init T self [t] (uninit self m))"
  by (simp add: brace_init_unary_def tag_brace uninit_def state_of_def brace_init_def
      and_then_simps)

text \<open>
  A call of the free function with \<open>T\<close> given agrees with the two steps whenever the
  member accepts the arguments as they are.
\<close>

lemma call_paren_init_agrees:
  assumes "paren_constructible_from T (map snd cargs)"
  shows "call_paren_init T A self cargs m
           = state_of (paren_init T self (map snd cargs) (uninit self m))"
proof -
  have v: "paren_init_variadic T self (map snd cargs) m
             = state_of (paren_init T self (map snd cargs) (uninit self m))"
    by (rule paren_variadic)
  show ?thesis
  proof (cases "\<exists>cat t. cargs = [(cat, t)]")
    case True
    then obtain cat t where c: "cargs = [(cat, t)]"
      by blast
    have u: "paren_init_unary T self t m = state_of (paren_init T self [t] (uninit self m))"
      by (rule paren_unary)
    from assms c v u show ?thesis
      by (auto simp: call_paren_init_def bind_rvalue_reference_def Let_def
          split: option.splits binding.splits)
  next
    case False
    then have "(case cargs of [(cat, t)] \<Rightarrow> f cat t | _ \<Rightarrow> None) = None"
      for f :: "category \<Rightarrow> 'a \<Rightarrow> (binding \<times> 'a) option"
      by (auto split: list.splits prod.splits)
    then show ?thesis
      using v by (simp add: call_paren_init_def Let_def)
  qed
qed

lemma call_brace_init_agrees:
  assumes "brace_constructible_from T (map snd cargs)"
  shows "call_brace_init T A self cargs m
           = state_of (brace_init T self (map snd cargs) (uninit self m))"
proof -
  have v: "brace_init_variadic T self (map snd cargs) m
             = state_of (brace_init T self (map snd cargs) (uninit self m))"
    by (rule brace_variadic)
  show ?thesis
  proof (cases "\<exists>cat t. cargs = [(cat, t)]")
    case True
    then obtain cat t where c: "cargs = [(cat, t)]"
      by blast
    have u: "brace_init_unary T self t m = state_of (brace_init T self [t] (uninit self m))"
      by (rule brace_unary)
    from assms c v u show ?thesis
      by (auto simp: call_brace_init_def bind_rvalue_reference_def Let_def
          split: option.splits binding.splits)
  next
    case False
    then have "(case cargs of [(cat, t)] \<Rightarrow> f cat t | _ \<Rightarrow> None) = None"
      for f :: "category \<Rightarrow> 'a \<Rightarrow> (binding \<times> 'a) option"
      by (auto split: list.splits prod.splits)
    then show ?thesis
      using v by (simp add: call_brace_init_def Let_def)
  qed
qed

text \<open>
  With no template argument and an rvalue, the call is the overload with one parameter.
\<close>

lemma call_deduced_rvalue:
  "call_paren_init_deduced X self Rvalue t m
     = state_of (paren_init X self [t] (uninit self m))"
  "call_brace_init_deduced X self Rvalue t m
     = state_of (brace_init X self [t] (uninit self m))"
  by (simp_all add: call_paren_init_deduced_def call_brace_init_deduced_def paren_unary
      brace_unary)

text \<open>
  Claim C5. For every payload type and every construction strategy, the tag constructor
  and the free function give the same state and the same failure as an uninitialised
  cell followed by the strategy's member with the same arguments. The tag constructors
  do; the free functions \<open>paren_init\<close> and \<open>brace_init\<close> do not. With \<open>std::int64_t x\<close>
  holding the largest value of its type, \<open>brace_init<std::int32_t>(x)\<close> compiles and
  leaves a cell that holds \<open>-1\<close>: the variadic overload is rejected for the narrowing,
  and the overload with one parameter, its \<open>T&&\<close> bound to the converted temporary, is
  selected. The member \<open>brace_init(x)\<close> on an uninitialised cell and the tag constructor
  do not compile. And with an lvalue \<open>v\<close> of type \<open>std::int32_t\<close>, \<open>paren_init(v)\<close> does
  not compile, where the member \<open>paren_init(v)\<close> constructs the value.
\<close>

theorem free_function_differs_from_member:
  "map_sum id (\<lambda>m. (heap m 0, trace m))
     (call_brace_init (fundamental_int int32) (int_conversions int32) 0
        [(Lvalue, \<lparr>arg_type = int64, arg_value = 9223372036854775807\<rparr>)] (fresh 4))
     = Inr (int_repr int32 (- 1), [Constructed 0 (- 1)])
   \<and> state_of (brace_init (fundamental_int int32) 0
        [\<lparr>arg_type = int64, arg_value = 9223372036854775807\<rparr>] (maybe_uninit 0 (fresh 4)))
     = Inl Ill_formed
   \<and> maybe_uninit_brace_init_t (fundamental_int int32) 0
        [\<lparr>arg_type = int64, arg_value = 9223372036854775807\<rparr>] (fresh 4)
     = Inl Ill_formed
   \<and> call_paren_init_deduced (fundamental_int int32) 0 Lvalue
        \<lparr>arg_type = int32, arg_value = 42\<rparr> (fresh 4)
     = Inl Ill_formed
   \<and> map_sum id (\<lambda>m. (heap m 0, trace m))
       (state_of (paren_init (fundamental_int int32) 0
          [\<lparr>arg_type = int32, arg_value = 42\<rparr>] (maybe_uninit 0 (fresh 4))))
     = Inr (int_repr int32 42, [Constructed 0 42])"
proof -
  let ?x = "\<lparr>arg_type = int64, arg_value = 9223372036854775807\<rparr>"
  let ?v = "\<lparr>arg_type = int32, arg_value = 42\<rparr>"
  let ?t = "\<lparr>arg_type = int32, arg_value = - 1\<rparr>"
  let ?see = "\<lambda>m :: int machine. (heap m 0, trace m)"
  have n: "narrowing int64 int32"
    by (simp add: narrowing_def int64_def int32_def int_min_def int_max_def)
  have nn: "\<not> narrowing int32 int32"
    by (simp add: narrowing_def)
  have c1: "convert int32 9223372036854775807 = - 1"
    by (simp add: convert_def int32_def)
  have c2: "convert int32 (- 1) = - 1"
    by (simp add: convert_def int32_def)
  have c3: "convert int32 42 = 42"
    by (simp add: convert_def int32_def)
  have d: "int64 \<noteq> int32"
    by (simp add: int64_def int32_def)
  have b: "bind_rvalue_reference (int_conversions int32) Lvalue ?x = Some (Converted, ?t)"
    using d by (simp add: bind_rvalue_reference_def int_conversions_def c1)
  have bx: "\<not> brace_constructible_from (fundamental_int int32) [?x]"
    by (simp add: brace_constructible_from_def fundamental_int_fields n)
  have bt: "brace_constructible_from (fundamental_int int32) [?t]"
    by (simp add: brace_constructible_from_def fundamental_int_fields nn)
  have r: "ctor_run (noexcept_ctor (Constructs (- 1 :: int))) = Constructs (- 1)"
    by (simp add: noexcept_ctor_def)
  have nb: "new_brace (fundamental_int int32) [?t] = Some (noexcept_ctor (Constructs (- 1)))"
    by (simp add: fundamental_int_fields nn c2)
  have m: "map_sum id ?see (state_of (brace_init (fundamental_int int32) 0 [?t] (fresh 4)))
             = Inr (int_repr int32 (- 1), [Constructed 0 (- 1)])"
    using brace_init_Constructs [OF nb r, of 0 "fresh 4"]
    by (simp add: fundamental_int_fields fresh_fields state_of_def and_then_simps)
  have u: "map_sum id ?see (brace_init_unary (fundamental_int int32) 0 ?t (fresh 4))
             = Inr (int_repr int32 (- 1), [Constructed 0 (- 1)])"
    using m by (simp add: brace_unary uninit_def maybe_uninit_def)
  have s: "call_brace_init (fundamental_int int32) (int_conversions int32) 0 [(Lvalue, ?x)]
             (fresh 4)
           = brace_init_unary (fundamental_int int32) 0 ?t (fresh 4)"
    by (simp add: call_brace_init_def b bx bt)
  have 1: "map_sum id ?see
             (call_brace_init (fundamental_int int32) (int_conversions int32) 0 [(Lvalue, ?x)]
                (fresh 4))
           = Inr (int_repr int32 (- 1), [Constructed 0 (- 1)])"
    by (simp only: s u)
  have 2: "state_of (brace_init (fundamental_int int32) 0 [?x] (maybe_uninit 0 (fresh 4)))
             = (Inl Ill_formed :: error + int machine)"
    by (simp add: brace_init_def bx state_of_def and_then_simps)
  have 3: "maybe_uninit_brace_init_t (fundamental_int int32) 0 [?x] (fresh 4)
             = (Inl Ill_formed :: error + int machine)"
    by (simp add: maybe_uninit_brace_init_t_def bx)
  have 4: "call_paren_init_deduced (fundamental_int int32) 0 Lvalue ?v (fresh 4)
             = (Inl Ill_formed :: error + int machine)"
    by (simp add: call_paren_init_deduced_def)
  have r42: "ctor_run (noexcept_ctor (Constructs (42 :: int))) = Constructs 42"
    by (simp add: noexcept_ctor_def)
  have np: "new_paren (fundamental_int int32) [?v] = Some (noexcept_ctor (Constructs 42))"
    by (simp add: fundamental_int_fields c3)
  have 5: "map_sum id ?see
             (state_of (paren_init (fundamental_int int32) 0 [?v] (maybe_uninit 0 (fresh 4))))
             = Inr (int_repr int32 42, [Constructed 0 42])"
    using paren_init_Constructs [OF np r42, of 0 "fresh 4"]
    by (simp add: fundamental_int_fields fresh_fields maybe_uninit_def state_of_def
        and_then_simps)
  from 1 2 3 4 5 show ?thesis
    by (intro conjI)
qed

section \<open>Reuse of a cell\<close>



section \<open>Narrowing conversions\<close>

lemma pow_le_double: "(2::int) ^ w \<le> 2 * 2 ^ (w - 1)"
  by (cases w) simp_all

lemma convert_representable: "representable T (convert T v)"
proof (cases "is_signed T")
  case True
  define h :: int where "h = 2 ^ (width T - 1)"
  define r where "r = (v + h) mod 2 ^ width T"
  have a: "0 \<le> r"
    by (simp add: r_def)
  have b: "r < 2 ^ width T"
    by (simp add: r_def)
  have c: "(2::int) ^ width T \<le> 2 * h"
    unfolding h_def by (rule pow_le_double)
  have "convert T v = r - h"
    using True by (simp add: convert_def r_def h_def)
  moreover have "int_min T = - h" and "int_max T = h - 1"
    using True by (simp_all add: int_min_def int_max_def h_def)
  ultimately show ?thesis
    using a b c by (simp add: representable_def)
next
  case False
  define r where "r = v mod 2 ^ width T"
  have a: "0 \<le> r"
    by (simp add: r_def)
  have b: "r < 2 ^ width T"
    by (simp add: r_def)
  have "convert T v = r"
    using False by (simp add: convert_def r_def)
  moreover have "int_min T = 0" and "int_max T = 2 ^ width T - 1"
    using False by (simp_all add: int_min_def int_max_def)
  ultimately show ?thesis
    using a b by (simp add: representable_def)
qed

lemma out_of_range_narrows:
  assumes "representable S v" and "\<not> representable T v"
  shows "narrowing S T"
  using assms by (auto simp: representable_def narrowing_def)

text \<open>
  Claim C4. For a fixed-size integer payload type \<open>T\<close> and an argument of integer type
  \<open>S\<close> whose value \<open>T\<close> cannot represent: \<open>brace_init\<close> with that argument does not
  compile, while \<open>paren_init\<close> with it compiles and constructs the converted value,
  which is in the range of \<open>T\<close> and so differs from the argument.
\<close>

theorem brace_rejects_narrowing:
  assumes "representable S v" and "\<not> representable T v"
  shows "brace_init (fundamental_int T) self [\<lparr>arg_type = S, arg_value = v\<rparr>] m = Inl Ill_formed
       \<and> paren_init (fundamental_int T) self [\<lparr>arg_type = S, arg_value = v\<rparr>] m =
           Inr (deref (fundamental_int T) self,
                m\<lparr>heap := (heap m)(self := int_repr T (convert T v)),
                  trace := trace m @ [Constructed self (convert T v)]\<rparr>)
       \<and> representable T (convert T v)
       \<and> convert T v \<noteq> v"
proof -
  have n: "narrowing S T"
    by (rule out_of_range_narrows [OF assms])
  have a: "brace_init (fundamental_int T) self [\<lparr>arg_type = S, arg_value = v\<rparr>] m = Inl Ill_formed"
    by (simp add: brace_init_def brace_constructible_from_def fundamental_int_fields n)
  have c: "ctor_run (noexcept_ctor (Constructs (convert T v))) = Constructs (convert T v)"
    by (simp add: noexcept_ctor_def)
  have p: "new_paren (fundamental_int T) [\<lparr>arg_type = S, arg_value = v\<rparr>]
             = Some (noexcept_ctor (Constructs (convert T v)))"
    by (simp add: fundamental_int_fields)
  have b: "paren_init (fundamental_int T) self [\<lparr>arg_type = S, arg_value = v\<rparr>] m =
           Inr (deref (fundamental_int T) self,
                m\<lparr>heap := (heap m)(self := int_repr T (convert T v)),
                  trace := trace m @ [Constructed self (convert T v)]\<rparr>)"
    using paren_init_Constructs [OF p c, of self m] by (simp add: fundamental_int_fields)
  have r: "representable T (convert T v)"
    by (rule convert_representable)
  have "convert T v \<noteq> v"
    using r assms(2) by auto
  with a b r show ?thesis
    by simp
qed

lemma int64_max: "representable int64 9223372036854775807"
  by (simp add: representable_def int64_def int_min_def int_max_def)

lemma int32_max: "\<not> representable int32 9223372036854775807"
  by (simp add: representable_def int32_def int_min_def int_max_def)

lemma convert_int64_max: "convert int32 9223372036854775807 = - 1"
  by (simp add: convert_def int32_def)

theorem brace_rejects_narrowing_witness:
  "brace_init (fundamental_int int32) 0 [\<lparr>arg_type = int64, arg_value = 9223372036854775807\<rparr>]
      (fresh 4) = Inl Ill_formed
   \<and> paren_init (fundamental_int int32) 0
        [\<lparr>arg_type = int64, arg_value = 9223372036854775807\<rparr>] (fresh 4) =
       Inr (deref (fundamental_int int32) 0,
            \<lparr>heap = (\<lambda>p. replicate 4 170)(0 := int_repr int32 (- 1)),
             trace = [Constructed 0 (- 1)]\<rparr>)
   \<and> representable int32 (- 1)
   \<and> - 1 \<noteq> (9223372036854775807 :: int)"
  using brace_rejects_narrowing [OF int64_max int32_max, of 0 "fresh 4"]
  by (simp add: convert_int64_max fresh_def)

section \<open>The byte view\<close>

text \<open>The accessors of both variants designate the one object of the cell.\<close>

lemma accessors_alias:
  "ptr_addr (ptr T self h) = object_addr self"
  "ref_addr (ref T self h) = object_addr self"
  "ptr_addr (ptr_v1 T self h) = object_addr self"
  "ref_addr (assume_init T self h) = object_addr self"
  by (simp_all add: ptr_def ref_def ptr_v1_def assume_init_def)

lemma bytes_cases:
  "bytes T self h =
     (if handle_const h \<and> handle_category h = Rvalue \<and> \<not> is_const T then Inl Ill_formed
      else Inr \<lparr>span_data = object_addr self, span_extent = sizeof T,
                span_const = (handle_const h \<or> is_const T)\<rparr>)"
  by (cases "handle_category h") (auto simp: bytes_def const_ref_def deduce_Self_def Let_def)

lemma fresh_4: "fresh 4 = \<lparr>heap = (\<lambda>p. [170, 170, 170, 170]), trace = []\<rparr>"
  by (simp add: fresh_def numeral_eq_Suc)

text \<open>
  Claim C7. \<open>bytes()\<close> returns a span of \<open>sizeof(T)\<close> bytes over the cell's storage, of
  const bytes exactly when the handle or \<open>T\<close> is const. The header breaks this for a
  const rvalue handle: \<open>Self\<close> is then deduced as the non-reference type
  \<open>maybe_uninit const\<close>, which \<open>const_ref\<close> does not match, so \<open>byte_type\<close> is the
  non-const \<open>std::byte\<close>, the cast from \<open>T const*\<close> to \<open>std::byte*\<close> casts constness away
  and the call does not compile. On a const lvalue handle the call gives the span of
  const bytes.
\<close>

theorem bytes_of_const_rvalue:
  "bytes (fundamental_int uint32) 0 \<lparr>handle_const = True, handle_category = Rvalue\<rparr>
     = Inl Ill_formed
   \<and> bytes (fundamental_int uint32) 0 \<lparr>handle_const = True, handle_category = Lvalue\<rparr>
     = Inr \<lparr>span_data = 0, span_extent = 4, span_const = True\<rparr>"
  by (simp add: bytes_def const_ref_def deduce_Self_def fundamental_int_fields object_addr_def
      uint32_def)

text \<open>
  For every other handle, and for a const \<open>T\<close>, \<open>bytes()\<close> gives the span that starts
  at the cell's object, has \<open>sizeof(T)\<close> elements and is const exactly when the handle
  or \<open>T\<close> is.
\<close>

theorem bytes_view:
  "bytes T self h =
     (if handle_const h \<and> handle_category h = Rvalue \<and> \<not> is_const T then Inl Ill_formed
      else Inr \<lparr>span_data = object_addr self, span_extent = sizeof T,
                span_const = (handle_const h \<or> is_const T)\<rparr>)"
  by (rule bytes_cases)

text \<open>The span aliases the object: after a construction it reads the object's bytes.\<close>

lemma span_read_after_construction:
  assumes "new_paren T args = Some c" and "ctor_run c = Constructs v"
    and "\<not> (handle_const h \<and> handle_category h = Rvalue \<and> \<not> is_const T)"
  shows "and_then (paren_init T self args m)
           (\<lambda>(r, m'). and_then (bytes T self h) (\<lambda>s. Inr (span_read s m')))
         = Inr (take (sizeof T) (repr T v))"
  using assms
  by (simp add: paren_init_Constructs bytes_cases and_then_simps span_read_def object_addr_def)

lemma length_4:
  assumes "length xs = 4"
  obtains a b c d where "xs = [a, b, c, d]"
proof -
  from assms obtain a ys where 1: "xs = a # ys" "length ys = 3"
    by (cases xs) auto
  then obtain b zs where 2: "ys = b # zs" "length zs = 2"
    by (cases ys) auto
  then obtain c ws where 3: "zs = c # ws" "length ws = 1"
    by (cases zs) auto
  then obtain d where 4: "ws = [d]"
    by (cases ws) auto
  from 1 2 3 4 that show thesis
    by simp
qed

lemma write_4:
  assumes "length (heap m p) = 4"
  shows "span_write_all \<lparr>span_data = p, span_extent = 4, span_const = False\<rparr> 0 [b0, b1, b2, b3] m
           = Inr (m\<lparr>heap := (heap m)(p := [b0, b1, b2, b3])\<rparr>)"
proof -
  from assms obtain a b c d where "heap m p = [a, b, c, d]"
    by (rule length_4)
  then show ?thesis
    by (simp add: span_write_def and_then_simps)
qed

text \<open>
  On a little-endian target, writing the bytes \<open>67 45 23 01\<close> (hexadecimal) through the
  byte view of a cell of \<open>std::uint32_t\<close>, whatever its four bytes of storage held, and
  reading the value through \<open>ref()\<close> gives \<open>0x01234567\<close>.
\<close>

theorem byte_view_round_trip:
  assumes "length (heap m self) = 4"
  shows "and_then (bytes (fundamental_int uint32) self
             \<lparr>handle_const = False, handle_category = Lvalue\<rparr>)
     (\<lambda>s. and_then (span_write_all s 0 [0x67, 0x45, 0x23, 0x01] m)
        (\<lambda>m'. Inr (read_ref (fundamental_int uint32)
                    (ref (fundamental_int uint32) self
                       \<lparr>handle_const = False, handle_category = Lvalue\<rparr>) m')))
   = Inr 0x01234567"
proof -
  have w: "span_write_all \<lparr>span_data = self, span_extent = 4, span_const = False\<rparr> 0
             [0x67, 0x45, 0x23, 0x01] m
           = Inr (m\<lparr>heap := (heap m)(self := [0x67, 0x45, 0x23, 0x01])\<rparr>)"
    by (rule write_4 [OF assms])
  have b: "bytes (fundamental_int uint32) self \<lparr>handle_const = False, handle_category = Lvalue\<rparr>
             = Inr \<lparr>span_data = self, span_extent = 4, span_const = False\<rparr>"
    by (simp add: bytes_cases fundamental_int_fields uint32_def object_addr_def)
  have r: "read_ref (fundamental_int uint32)
             (ref (fundamental_int uint32) self \<lparr>handle_const = False, handle_category = Lvalue\<rparr>)
             (m\<lparr>heap := (heap m)(self := [0x67, 0x45, 0x23, 0x01])\<rparr>) = 0x01234567"
    by (simp add: read_ref_def ref_def object_addr_def fundamental_int_fields int_obj_def
        convert_def uint32_def)
  show ?thesis
    by (simp only: b w r and_then_simps)
qed

theorem byte_view_round_trip_fresh:
  "and_then (bytes (fundamental_int uint32) 0 \<lparr>handle_const = False, handle_category = Lvalue\<rparr>)
     (\<lambda>s. and_then (span_write_all s 0 [0x67, 0x45, 0x23, 0x01] (fresh 4))
        (\<lambda>m'. Inr (read_ref (fundamental_int uint32)
                    (ref (fundamental_int uint32) 0
                       \<lparr>handle_const = False, handle_category = Lvalue\<rparr>) m')))
   = Inr 0x01234567"
proof -
  have "length (heap (fresh 4 :: int machine) 0) = 4"
    by (simp add: fresh_fields)
  then show ?thesis
    by (rule byte_view_round_trip)
qed

section \<open>Destruction in the later variant\<close>

text \<open>
  The later variant's \<open>destroy\<close>, in general: for a destructible \<open>T\<close> it changes
  nothing when \<open>T\<close> is trivially destructible and otherwise runs \<open>T\<close>'s
  destructor, once, on the object stored in the cell.
\<close>

theorem destroy_runs_destructor:
  assumes "is_destructible T"
  shows "destroy T self m =
           Inr (if is_trivially_destructible T then m
                else m\<lparr>trace := trace m @ [Destroyed (object_addr self)
                                              (obj T (heap m (object_addr self)))]\<rparr>)"
  using destroy_cases [OF assms] by (simp add: object_addr_def)

theorem destroy_runs_destructor_witness:
  "destroy NonTrivial 0 (fresh 4) =
     Inr (fresh 4\<lparr>trace := [Destroyed 0 (int_obj int32 [170, 170, 170, 170])]\<rparr>)"
proof -
  have "is_destructible NonTrivial"
    by (simp add: NonTrivial_fields)
  from destroy_runs_destructor [OF this, of 0 "fresh 4"]
  show ?thesis
    by (simp add: NonTrivial_fields object_addr_def fresh_4)
qed

section \<open>Copying and moving\<close>

text \<open>
  Claim C9, as stated: the cell's copy and move members are available exactly when
  \<open>T\<close>'s operation is trivial, and for a \<open>T\<close> with a non-trivial copy or move operation
  copying, moving or assigning the cell does not compile. It fails: for a \<open>T\<close> whose copy
  constructor is trivial and whose move constructor is not, constructing a cell of the
  earlier variant from an rvalue cell compiles; it selects the cell's copy constructor.
\<close>

theorem move_falls_back_to_copy:
  "construct_cell_v1
     \<lparr>is_trivially_copy_constructible = True, is_trivially_move_constructible = False,
      is_trivially_copy_assignable = True, is_trivially_move_assignable = False\<rparr> Rvalue
   = Inr Copy_constructor"
  by (simp add: construct_cell_v1_def)

text \<open>
  Claim C9, amended. In the earlier variant, with \<open>X\<close> the values of the four standard
  traits at \<open>T\<close>, each of the four members is declared exactly when its trait holds.
  In the later variant, with \<open>U\<close> what the language finds of \<open>T\<close>'s own operations, the
  copy constructor is usable exactly when \<open>T\<close>'s copy constructor is trivial and \<open>T\<close>'s
  destructor usable, and the copy assignment operator exactly when \<open>T\<close>'s is trivial;
  there is no move member. In each variant, copying a cell (constructing or assigning
  from an lvalue) does not compile exactly when that variant's copy member is not
  available. In the earlier variant, moving a cell takes the move member when its trait
  holds and falls back to the copy member otherwise, so it does not compile exactly
  when neither trait holds.
\<close>

theorem copy_and_move_of_the_cell:
  "available_v1 X Copy_constructor = is_trivially_copy_constructible X
 \<and> available_v1 X Move_constructor = is_trivially_move_constructible X
 \<and> available_v1 X Copy_assignment = is_trivially_copy_assignable X
 \<and> available_v1 X Move_assignment = is_trivially_move_assignable X
 \<and> available U Copy_constructor = (copy_constructor_trivial U \<and> destructor_usable U)
 \<and> available U Copy_assignment = copy_assignment_trivial U
 \<and> available U Move_constructor = False
 \<and> available U Move_assignment = False
 \<and> (construct_cell_v1 X Lvalue = Inl Ill_formed) = (\<not> is_trivially_copy_constructible X)
 \<and> (assign_cell_v1 X Lvalue = Inl Ill_formed) = (\<not> is_trivially_copy_assignable X)
 \<and> (construct_cell U Lvalue = Inl Ill_formed)
     = (\<not> (copy_constructor_trivial U \<and> destructor_usable U))
 \<and> (assign_cell U Lvalue = Inl Ill_formed) = (\<not> copy_assignment_trivial U)
 \<and> construct_cell_v1 X Rvalue =
     (if is_trivially_move_constructible X then Inr Move_constructor
      else if is_trivially_copy_constructible X then Inr Copy_constructor
      else Inl Ill_formed)
 \<and> assign_cell_v1 X Rvalue =
     (if is_trivially_move_assignable X then Inr Move_assignment
      else if is_trivially_copy_assignable X then Inr Copy_assignment
      else Inl Ill_formed)"
  by (simp add: construct_cell_v1_def assign_cell_v1_def construct_cell_def assign_cell_def)

text \<open>
  The later variant declares no move member, so moving one of its cells is copying it:
  it compiles exactly when the copy member is usable, whatever \<open>T\<close>'s move operation
  is.
\<close>

lemma later_variant_moves_by_copy:
  "construct_cell U Rvalue =
     (if copy_constructor_trivial U \<and> destructor_usable U then Inr Copy_constructor
      else Inl Ill_formed)
 \<and> assign_cell U Rvalue =
     (if copy_assignment_trivial U then Inr Copy_assignment else Inl Ill_formed)"
  by (simp add: construct_cell_def assign_cell_def)

text \<open>
  The two variants differ on one and the same \<open>T\<close>. For a class with implicit copy
  operations and a user-provided destructor, such as \<open>NonTrivial\<close>, the trait
  \<open>std::is_trivially_copy_constructible_v\<close> is false where the implementations count
  the destructor, and \<open>T\<close>'s copy constructor is trivial: copying a cell of the earlier
  variant does not compile, copying a cell of the later variant does.
\<close>

lemma variants_differ_on_copying:
  "construct_cell_v1
     \<lparr>is_trivially_copy_constructible = False, is_trivially_move_constructible = False,
      is_trivially_copy_assignable = True, is_trivially_move_assignable = True\<rparr> Lvalue
     = Inl Ill_formed
 \<and> construct_cell
     \<lparr>copy_constructor_trivial = True, copy_assignment_trivial = True,
      destructor_usable = True\<rparr> Lvalue
     = Inr Copy_constructor"
  by (simp add: construct_cell_v1_def construct_cell_def)

section \<open>Exception specifications of the entry points\<close>

lemma Loud_fields:
  "new_paren Loud [x] = Some \<lparr>ctor_noexcept = True, ctor_run = Constructs x\<rparr>"
  "sizeof Loud = 4"
  "repr Loud = int_repr int32"
  "is_destructible Loud"
  "\<not> is_nothrow_destructible Loud"
  by (simp_all add: Loud_def)

text \<open>
  Claim C10, as stated: every entry point of a construction strategy is \<open>noexcept\<close>
  exactly when \<open>T\<close>'s corresponding form of construction is. It fails in the earlier
  variant: for \<open>Loud\<close>, whose constructor from an \<open>int\<close> is \<open>noexcept\<close> and whose
  destructor is \<open>noexcept(false)\<close>, the construction \<open>Loud(42)\<close> is \<open>noexcept\<close> and
  \<open>init(42)\<close>, which constructs the value and destroys nothing, is not.
\<close>

theorem init_noexcept_counts_the_destructor:
  "noexcept_form (new_paren Loud [42])
 \<and> \<not> noexcept_spec E_init Loud [42]
 \<and> map_sum id fst (init Loud 0 [42] (fresh 4)) = Inr Void"
proof -
  have a: "noexcept_form (new_paren Loud [42])"
    by (simp add: noexcept_form_def Loud_fields)
  have b: "\<not> noexcept_spec E_init Loud [42]"
    by (simp add: is_nothrow_constructible_def Loud_fields)
  have r: "ctor_run \<lparr>ctor_noexcept = True, ctor_run = Constructs (42 :: int)\<rparr> = Constructs 42"
    by simp
  have c: "map_sum id fst (init Loud 0 [42] (fresh 4)) = Inr Void"
    using init_Constructs [OF Loud_fields(1) r, of 0 "fresh 4"]
    by (simp add: Loud_fields fresh_fields)
  from a b c show ?thesis
    by (intro conjI)
qed

lemma later_noexcept:
  "nothrow_default_constructible T = noexcept_form (new_default T)"
  "nothrow_paren_constructible_from T args = noexcept_form (new_paren T args)"
  "nothrow_brace_constructible_from T args = noexcept_form (new_brace T args)"
  by (simp_all add: nothrow_default_constructible_def nothrow_paren_constructible_from_def
      nothrow_brace_constructible_from_def noexcept_form_def split: option.splits)

lemma earlier_noexcept:
  "is_nothrow_constructible T args
     = (noexcept_form (new_paren T args) \<and> is_destructible T \<and> is_nothrow_destructible T)"
  by (auto simp: is_nothrow_constructible_def is_constructible_def noexcept_form_def
      split: option.splits)

text \<open>
  Claim C10, amended. In the later variant every entry point of a construction strategy
  (tag constructor, member, free function) is \<open>noexcept\<close> exactly when \<open>T\<close>'s
  corresponding form of construction is: the new-expression is well-formed and the
  constructor it selects is declared \<open>noexcept\<close>. In the earlier variant an entry point
  is \<open>noexcept\<close> exactly when the construction \<open>T(args...)\<close> is \<open>noexcept\<close> and, in
  addition, \<open>T\<close>'s destructor is usable and \<open>noexcept\<close>; for \<open>default_init\<close> and the
  constructor with \<open>default_init_tag\<close> the construction tested is \<open>T()\<close>, not the
  default-initialisation they perform. \<open>destroy\<close> and \<open>destruct\<close> are \<open>noexcept\<close> exactly
  when \<open>T\<close>'s destructor is. The constructor of the uninitialised cell, \<open>uninit\<close>, \<open>ptr\<close>,
  \<open>ref\<close>, \<open>assume_init\<close> and \<open>bytes\<close> are \<open>noexcept\<close> always.
\<close>

theorem noexcept_specifications:
  "noexcept_spec L_maybe_uninit_default_init_t T args = noexcept_form (new_default T)
 \<and> noexcept_spec L_default_init T args = noexcept_form (new_default T)
 \<and> noexcept_spec L_default_init_fn T args = noexcept_form (new_default T)
 \<and> noexcept_spec L_maybe_uninit_paren_init_t T args = noexcept_form (new_paren T args)
 \<and> noexcept_spec L_paren_init T args = noexcept_form (new_paren T args)
 \<and> noexcept_spec L_paren_init_variadic T args = noexcept_form (new_paren T args)
 \<and> noexcept_spec L_paren_init_unary T args = noexcept_form (new_paren T args)
 \<and> noexcept_spec L_maybe_uninit_brace_init_t T args = noexcept_form (new_brace T args)
 \<and> noexcept_spec L_brace_init T args = noexcept_form (new_brace T args)
 \<and> noexcept_spec L_brace_init_variadic T args = noexcept_form (new_brace T args)
 \<and> noexcept_spec L_brace_init_unary T args = noexcept_form (new_brace T args)
 \<and> noexcept_spec L_destroy T args = is_nothrow_destructible T
 \<and> noexcept_spec E_destruct T args = is_nothrow_destructible T
 \<and> noexcept_spec L_maybe_uninit T args
 \<and> noexcept_spec L_uninit_fn T args
 \<and> noexcept_spec L_ptr T args
 \<and> noexcept_spec L_ref T args
 \<and> noexcept_spec L_bytes T args
 \<and> noexcept_spec E_maybe_uninit T args
 \<and> noexcept_spec E_uninit_fn T args
 \<and> noexcept_spec E_ptr T args
 \<and> noexcept_spec E_assume_init T args
 \<and> noexcept_spec E_maybe_uninit_default_init_tag T args
     = (noexcept_form (new_paren T []) \<and> is_destructible T \<and> is_nothrow_destructible T)
 \<and> noexcept_spec E_default_init T args
     = (noexcept_form (new_paren T []) \<and> is_destructible T \<and> is_nothrow_destructible T)
 \<and> noexcept_spec E_default_init_fn T args
     = (noexcept_form (new_paren T []) \<and> is_destructible T \<and> is_nothrow_destructible T)
 \<and> noexcept_spec E_maybe_uninit_value_init_tag T args
     = (noexcept_form (new_paren T []) \<and> is_destructible T \<and> is_nothrow_destructible T)
 \<and> noexcept_spec E_init_fn0 T args
     = (noexcept_form (new_paren T []) \<and> is_destructible T \<and> is_nothrow_destructible T)
 \<and> noexcept_spec E_maybe_uninit_args T args
     = (noexcept_form (new_paren T args) \<and> is_destructible T \<and> is_nothrow_destructible T)
 \<and> noexcept_spec E_init T args
     = (noexcept_form (new_paren T args) \<and> is_destructible T \<and> is_nothrow_destructible T)
 \<and> noexcept_spec E_init_fn1 T args
     = (noexcept_form (new_paren T args) \<and> is_destructible T \<and> is_nothrow_destructible T)
 \<and> noexcept_spec E_init_auto T args
     = (noexcept_form (new_paren T args) \<and> is_destructible T \<and> is_nothrow_destructible T)
 \<and> noexcept_spec E_init_fn T args
     = (noexcept_form (new_paren T args) \<and> is_destructible T \<and> is_nothrow_destructible T)"
  by (simp only: noexcept_spec.simps later_noexcept earlier_noexcept
      is_nothrow_default_constructible_def simp_thms)

end
